theory Spec2Isabelle
  imports Main "HOL-Library.Sublist"
begin

section \<open>Python values used by the bot\<close>

text \<open>
  The bot is one Python module, \<^verbatim>\<open>app.py\<close>, written against the \<^verbatim>\<open>discord.py\<close> client
  library. Its handlers compute nothing of substance: each one inspects its arguments and
  asks the client library to do something (send, delete, kick, ...). The embedding
  therefore records, for every handler, the list of requests it makes, in order, and the
  exception it ends with, if any. What the library answers to a request (the messages a
  purge removed, whether a deletion was refused, ...) is an input of the model.

  Strings are \<^typ>\<open>string\<close>; a character outside ASCII stands as its UTF-8 bytes.
\<close>

text \<open>Exceptions that reach the bot's code. All of them are subclasses of Python's
  \<^verbatim>\<open>Exception\<close>. The first six are the classes of \<^verbatim>\<open>discord.ext.commands\<close> that
  \<^verbatim>\<open>on_command_error\<close> tests for; an instance of a subclass (such as \<^verbatim>\<open>MemberNotFound\<close>
  for \<^verbatim>\<open>BadArgument\<close>) counts as its parent, as \<^verbatim>\<open>isinstance\<close> does.\<close>

datatype perm = manage_messages | kick_members | ban_members | manage_roles

datatype exn =
    MissingPermissions "perm list"
  | BotMissingPermissions "perm list"
  | MissingRequiredArgument string
  | BadArgument
  | CommandNotFound string
  | CommandInvokeError exn
  | Forbidden
  | NotFound
  | HTTPException
  | AttributeError
  | ValueError
  | OtherException string

subsection \<open>\<^verbatim>\<open>str\<close> of an integer\<close>

fun digits :: "nat \<Rightarrow> string" where
  "digits n =
     (if n < 10 then [''0123456789'' ! n] else digits (n div 10) @ [''0123456789'' ! (n mod 10)])"

declare digits.simps [simp del]

definition str_int :: "int \<Rightarrow> string" where
  "str_int i = (if i < 0 then CHR ''-'' # digits (nat (- i)) else digits (nat i))"

subsection \<open>\<^verbatim>\<open>int\<close> of a string\<close>

text \<open>Python's \<^verbatim>\<open>int(s)\<close> on ASCII text of ordinary length: blanks around the literal
  are dropped, one sign is allowed, and the digits may be grouped by single underscores.
  Anything else raises \<^verbatim>\<open>ValueError\<close>. (Python also accepts decimal digits of other
  scripts, drops blanks outside ASCII and refuses literals of several thousand digits; the
  configuration loader below therefore takes the conversion as a parameter, and \<open>py_int\<close>
  is the instance used on concrete ASCII inputs.)\<close>

definition is_space :: "char \<Rightarrow> bool" where
  "is_space c = (c \<in> set [CHR 0x09, CHR 0x0A, CHR 0x0B, CHR 0x0C, CHR 0x0D, CHR 0x20])"

definition strip :: "string \<Rightarrow> string" where
  "strip s = rev (dropWhile is_space (rev (dropWhile is_space s)))"

definition is_digit :: "char \<Rightarrow> bool" where
  "is_digit c = (48 \<le> (of_char c :: nat) \<and> (of_char c :: nat) \<le> 57)"

fun int_body :: "nat \<Rightarrow> bool \<Rightarrow> string \<Rightarrow> nat option" where
  "int_body acc prev [] = (if prev then Some acc else None)"
| "int_body acc prev (c # cs) =
     (if is_digit c then int_body (10 * acc + (of_char c - 48)) True cs
      else if c = CHR ''_'' \<and> prev \<and> cs \<noteq> [] then int_body acc False cs
      else None)"

definition py_int :: "string \<Rightarrow> exn + int" where
  "py_int s =
     (case strip s of
        [] \<Rightarrow> Inl ValueError
      | c # cs \<Rightarrow>
          (if c = CHR ''-'' then
             (case int_body 0 False cs of None \<Rightarrow> Inl ValueError | Some n \<Rightarrow> Inr (- int n))
           else if c = CHR ''+'' then
             (case int_body 0 False cs of None \<Rightarrow> Inl ValueError | Some n \<Rightarrow> Inr (int n))
           else
             (case int_body 0 False (c # cs) of None \<Rightarrow> Inl ValueError | Some n \<Rightarrow> Inr (int n))))"

section \<open>Configuration\<close>

text \<open>
  \<^verbatim>\<open>
  PREFIX = os.getenv("PREFIX", "!")
  TOKEN = os.getenv("DISCORD_TOKEN")
  WELCOME_CHANNEL = os.getenv("WELCOME_CHANNEL", "general")
  OWNER_ID = int(os.getenv("OWNER_ID", "0")) if os.getenv("OWNER_ID") else None
  \<close>
  The process environment (after \<^verbatim>\<open>load_dotenv()\<close>) is a map from names to values.
  A variable can be set to the empty string; \<^verbatim>\<open>os.getenv\<close> then returns \<^verbatim>\<open>""\<close>, which
  Python's \<^verbatim>\<open>if\<close> and \<^verbatim>\<open>not\<close> treat like \<^verbatim>\<open>None\<close>.
\<close>

type_synonym environ = "string \<rightharpoonup> string"

definition getenv :: "environ \<Rightarrow> string \<Rightarrow> string option" where
  "getenv env k = env k"

definition getenv_default :: "environ \<Rightarrow> string \<Rightarrow> string \<Rightarrow> string" where
  "getenv_default env k d = (case env k of None \<Rightarrow> d | Some v \<Rightarrow> v)"

text \<open>Truth value of an optional string: \<^verbatim>\<open>None\<close> and \<^verbatim>\<open>""\<close> are false.\<close>

definition truthy :: "string option \<Rightarrow> bool" where
  "truthy v = (case v of None \<Rightarrow> False | Some s \<Rightarrow> s \<noteq> [])"

record config =
  PREFIX :: string
  TOKEN :: "string option"
  WELCOME_CHANNEL :: string
  OWNER_ID :: "int option"

definition load_config :: "(string \<Rightarrow> exn + int) \<Rightarrow> environ \<Rightarrow> exn + config" where
  "load_config int_of env =
     (let prefix = getenv_default env ''PREFIX'' ''!'';
          token = getenv env ''DISCORD_TOKEN'';
          welcome = getenv_default env ''WELCOME_CHANNEL'' ''general''
      in case (if truthy (getenv env ''OWNER_ID'')
               then (case int_of (getenv_default env ''OWNER_ID'' ''0'') of
                       Inl e \<Rightarrow> Inl e | Inr n \<Rightarrow> Inr (Some n))
               else Inr None) of
           Inl e \<Rightarrow> Inl e
         | Inr owner \<Rightarrow>
             Inr \<lparr>PREFIX = prefix, TOKEN = token, WELCOME_CHANNEL = welcome, OWNER_ID = owner\<rparr>)"

text \<open>What the process does once the module body has run (the \<^verbatim>\<open>__main__\<close> block).\<close>

datatype process_event = LogError string | Print string | RunBot string

definition token_missing_message :: string where
  "token_missing_message =
     ''DISCORD_TOKEN is not set. Please set the DISCORD_TOKEN environment variable or create a .env file.''"

definition run_main :: "config \<Rightarrow> process_event list" where
  "run_main cfg =
     (if \<not> truthy (TOKEN cfg) then [LogError token_missing_message, Print token_missing_message]
      else (case TOKEN cfg of None \<Rightarrow> [] | Some t \<Rightarrow> [RunBot t]))"

text \<open>The whole script: an exception while the module body runs ends the process before
  the \<^verbatim>\<open>__main__\<close> block is reached.\<close>

definition script :: "(string \<Rightarrow> exn + int) \<Rightarrow> environ \<Rightarrow> exn + process_event list" where
  "script int_of env =
     (case load_config int_of env of Inl e \<Rightarrow> Inl e | Inr cfg \<Rightarrow> Inr (run_main cfg))"

section \<open>The platform's objects\<close>

text \<open>Guilds, members, roles and channels are owned by the client library and handed to
  the handlers read-only. Each record keeps the attributes the handlers read. An instant
  (\<^verbatim>\<open>datetime\<close>) is opaque; only the library's \<^verbatim>\<open>strftime\<close> looks inside.\<close>

type_synonym datetime = int

record role =
  role_name :: string
  role_mention :: string

record member =
  member_str :: string
  member_mention :: string
  member_id :: int
  member_bot :: bool
  display_avatar_url :: string
  top_role :: "role option"
  joined_at :: "datetime option"
  member_created_at :: datetime

text \<open>\<open>bot_can_send\<close> is \<^verbatim>\<open>channel.permissions_for(guild.me).send_messages\<close>.\<close>

record text_channel =
  channel_name :: string
  channel_id :: int
  bot_can_send :: bool

record guild =
  guild_name :: string
  guild_description :: "string option"
  guild_icon_url :: "string option"
  guild_id :: int
  guild_owner :: string
  member_count :: int
  text_channels :: "text_channel list"
  voice_channels :: nat
  guild_roles :: nat
  guild_created_at :: datetime

datatype pyval = PInt int | PStr string | PBool bool

record embed =
  embed_title :: string
  embed_description :: string
  embed_timestamp :: "datetime option"
  embed_image :: "string option"
  embed_thumbnail :: "string option"
  embed_fields :: "(string \<times> pyval \<times> bool) list"

datatype content = Text string | Embed embed

section \<open>Requests to the client library\<close>

text \<open>One constructor per call the handlers make on the library (or on \<^verbatim>\<open>random\<close> and
  \<^verbatim>\<open>logging\<close>). \<open>Reply c m\<close> is \<^verbatim>\<open>ctx.reply(c, mention_author=m)\<close>; \<open>Send\<close> is \<^verbatim>\<open>ctx.send\<close>;
  \<open>SendTransient t n\<close> is \<^verbatim>\<open>ctx.channel.send(t, delete_after=n)\<close>; \<open>SendTo ch t\<close> is
  \<^verbatim>\<open>ch.send(t)\<close>; \<open>DeleteInvoking\<close> is \<^verbatim>\<open>ctx.message.delete()\<close>; \<open>Purge n\<close> is
  \<^verbatim>\<open>ctx.channel.purge(limit=n)\<close>; \<open>Randint a b\<close> is \<^verbatim>\<open>random.randint(a, b)\<close> and
  \<open>Choice n\<close> is \<^verbatim>\<open>random.choice\<close> on a list of \<open>n\<close> items.\<close>

datatype action =
    Reply content bool
  | Send string
  | SendTransient string nat
  | SendTo text_channel string
  | DeleteInvoking
  | Purge int
  | Kick member string
  | Ban member string
  | FetchUser int
  | Unban string
  | AddRoles member role
  | RemoveRoles member role
  | Randint int int
  | Choice nat
  | LogException string
  | LogDebug string


fun is_deletion :: "action \<Rightarrow> bool" where
  "is_deletion DeleteInvoking = True"
| "is_deletion (Purge n) = True"
| "is_deletion a = False"

fun is_random :: "action \<Rightarrow> bool" where
  "is_random (Randint a b) = True"
| "is_random (Choice n) = True"
| "is_random a = False"

text \<open>What the library answers during one invocation. A request that can be refused has
  an answer of type \<open>exn option\<close> (\<open>None\<close>: done) or \<open>exn + 'a\<close>. \<open>purge_result\<close> is the
  list of messages the purge removed (their ids), \<open>fetch_user_result\<close> is \<^verbatim>\<open>str\<close> of the
  user found. \<open>embed_Empty\<close> is what evaluating \<^verbatim>\<open>discord.Embed.Empty\<close> gives: a value
  meaning "no thumbnail" in library versions that have the attribute, \<^verbatim>\<open>AttributeError\<close>
  in those that do not. \<open>ws_latency\<close> is what \<^verbatim>\<open>round(bot.latency * 1000)\<close> evaluates to:
  an integer, or the exception that \<^verbatim>\<open>round\<close> raises when the latency is infinite or not
  a number (the floating-point product and its rounding are the interpreter's). Sending a
  message is recorded as a request and has no answer here: every send is the last call of
  its handler, so a send that fails changes none of the handler's requests; the requests
  the error hook would add after a failed send are not part of the model.\<close>

record world =
  ws_latency :: "exn + int"
  bot_user :: string
  utcnow :: datetime
  strftime :: "datetime \<Rightarrow> string \<Rightarrow> string"
  embed_Empty :: "exn + string option"
  delete_result :: "exn option"
  purge_result :: "exn + nat list"
  kick_result :: "exn option"
  ban_result :: "exn option"
  fetch_user_result :: "exn + string"
  unban_result :: "exn option"
  add_roles_result :: "exn option"
  remove_roles_result :: "exn option"

text \<open>The invocation context: who called, with which permissions in the channel, and in
  which guild (\<open>None\<close> in a private conversation).\<close>

record command_context =
  author :: member
  author_permissions :: "perm list"
  ctx_guild :: "guild option"

text \<open>A run of a handler: the requests it made, and the exception it ended with, if any.
  A handler that draws a random value has one run per value it can draw, all equally
  likely; the list of its runs stands for that uniform distribution.\<close>

type_synonym run = "action list \<times> exn option"

section \<open>Events\<close>

text \<open>
  \<^verbatim>\<open>
  async def on_member_join(member):
      guild = member.guild
      channel = discord.utils.get(guild.text_channels, name=WELCOME_CHANNEL)
      if channel and channel.permissions_for(guild.me).send_messages:
          await channel.send(f"Welcome {member.mention} to **{guild.name}**! Say hi (waving hand)")
      else:
          logger.debug(f"Welcome channel '{WELCOME_CHANNEL}' not found or no permission in guild {guild.name}")
  \<close>
  \<^verbatim>\<open>discord.utils.get\<close> returns the first element whose attribute equals the value, or
  \<^verbatim>\<open>None\<close>.
\<close>

definition utils_get_name :: "text_channel list \<Rightarrow> string \<Rightarrow> text_channel option" where
  "utils_get_name chans name = find (\<lambda>ch. channel_name ch = name) chans"

definition waving_hand :: string where
  "waving_hand = [CHR 0xF0, CHR 0x9F, CHR 0x91, CHR 0x8B]"

definition welcome_text :: "member \<Rightarrow> guild \<Rightarrow> string" where
  "welcome_text m g =
     ''Welcome '' @ member_mention m @ '' to **'' @ guild_name g @ ''**! Say hi '' @ waving_hand"

definition on_member_join :: "config \<Rightarrow> member \<Rightarrow> guild \<Rightarrow> action list" where
  "on_member_join cfg m g =
     (case utils_get_name (text_channels g) (WELCOME_CHANNEL cfg) of
        None \<Rightarrow>
          [LogDebug (''Welcome channel '' @ [CHR 0x27] @ WELCOME_CHANNEL cfg @ [CHR 0x27]
                     @ '' not found or no permission in guild '' @ guild_name g)]
      | Some channel \<Rightarrow>
          if bot_can_send channel then [SendTo channel (welcome_text m g)]
          else
            [LogDebug (''Welcome channel '' @ [CHR 0x27] @ WELCOME_CHANNEL cfg @ [CHR 0x27]
                       @ '' not found or no permission in guild '' @ guild_name g)])"

text \<open>
  \<^verbatim>\<open>
  async def on_command_error(ctx, error):
      if isinstance(error, commands.CommandInvokeError) and error.original:
          error = error.original
      if isinstance(error, commands.MissingPermissions): ...
      elif isinstance(error, commands.BotMissingPermissions): ...
      elif isinstance(error, commands.MissingRequiredArgument): ...
      elif isinstance(error, commands.BadArgument): ...
      elif isinstance(error, commands.CommandNotFound): return
      else: logger.exception(...); await ctx.reply(...)
  \<close>
  The wrapped exception of a \<^verbatim>\<open>CommandInvokeError\<close> is an exception object, which is
  true in a condition; the unwrapping is done once.
\<close>

fun unwrap :: "exn \<Rightarrow> exn" where
  "unwrap (CommandInvokeError original) = original"
| "unwrap error = error"

fun error_reply :: "exn \<Rightarrow> action list" where
  "error_reply (MissingPermissions ps) =
     [Reply (Text ''You do not have permission to run this command.'') False]"
| "error_reply (BotMissingPermissions ps) =
     [Reply (Text (''I don'' @ [CHR 0x27] @ ''t have the required permissions to do that.'')) False]"
| "error_reply (MissingRequiredArgument name) =
     [Reply (Text (''Missing argument: '' @ name)) False]"
| "error_reply BadArgument = [Reply (Text ''Bad argument provided.'') False]"
| "error_reply (CommandNotFound name) = []"
| "error_reply error =
     [LogException ''Unhandled command error'',
      Reply (Text ''An unexpected error occurred. The error has been logged.'') False]"

definition on_command_error :: "exn \<Rightarrow> action list" where
  "on_command_error error = error_reply (unwrap error)"

section \<open>Commands\<close>

subsection \<open>Utilities\<close>

text \<open>\<^verbatim>\<open>format_timedelta(dt) = dt.strftime("%Y-%m-%d %H:%M:%S UTC")\<close>\<close>

definition format_timedelta :: "world \<Rightarrow> datetime \<Rightarrow> string" where
  "format_timedelta w dt = strftime w dt ''%Y-%m-%d %H:%M:%S UTC''"

text \<open>\<^verbatim>\<open>member = member or ctx.author\<close>\<close>

definition member_or_author :: "command_context \<Rightarrow> member option \<Rightarrow> member" where
  "member_or_author ctx m = (case m of None \<Rightarrow> author ctx | Some x \<Rightarrow> x)"

subsection \<open>Basic commands\<close>

definition ping :: "world \<Rightarrow> run" where
  "ping w =
     (case ws_latency w of
        Inl e \<Rightarrow> ([], Some e)
      | Inr ms \<Rightarrow>
          ([Reply (Text (''Pong! WebSocket latency: '' @ str_int ms @ ''ms'')) False], None))"

text \<open>
  \<^verbatim>\<open>
  async def say(ctx, *, message: str):
      try:
          await ctx.message.delete()
      except Exception:
          pass
      await ctx.send(message)
  \<close>
\<close>

definition say :: "world \<Rightarrow> string \<Rightarrow> run" where
  "say w message =
     (case delete_result w of
        None \<Rightarrow> ([DeleteInvoking, Send message], None)
      | Some e \<Rightarrow> \<comment> \<open>\<^verbatim>\<open>except Exception: pass\<close>\<close>
          ([DeleteInvoking, Send message], None))"

definition avatar :: "command_context \<Rightarrow> member option \<Rightarrow> run" where
  "avatar ctx m =
     (let member = member_or_author ctx m;
          embed = \<lparr>embed_title = member_str member @ [CHR 0x27] @ ''s avatar'',
                    embed_description = [], embed_timestamp = None,
                    embed_image = Some (display_avatar_url member),
                    embed_thumbnail = None, embed_fields = []\<rparr>
      in ([Reply (Embed embed) False], None))"

text \<open>In \<open>serverinfo\<close>, \<^verbatim>\<open>g = ctx.guild\<close> is \<^verbatim>\<open>None\<close> outside a guild and \<^verbatim>\<open>g.name\<close> then
  raises; \<^verbatim>\<open>discord.Embed.Empty\<close> is evaluated only for a guild without icon.\<close>

definition serverinfo :: "world \<Rightarrow> command_context \<Rightarrow> run" where
  "serverinfo w ctx =
     (case ctx_guild ctx of
        None \<Rightarrow> ([], Some AttributeError)
      | Some g \<Rightarrow>
          (case (case guild_icon_url g of Some url \<Rightarrow> Inr (Some url) | None \<Rightarrow> embed_Empty w) of
             Inl e \<Rightarrow> ([], Some e)
           | Inr thumb \<Rightarrow>
               (let fields =
                      [(''Server ID'', PInt (guild_id g)),
                       (''Owner'', PStr (guild_owner g)),
                       (''Members'', PInt (member_count g)),
                       (''Text Channels'', PInt (int (length (text_channels g)))),
                       (''Voice Channels'', PInt (int (voice_channels g))),
                       (''Roles'', PInt (int (guild_roles g))),
                       (''Created at'', PStr (format_timedelta w (guild_created_at g)))];
                    embed = \<lparr>embed_title = guild_name g,
                              embed_description =
                                (case guild_description g of None \<Rightarrow> [] | Some d \<Rightarrow> d),
                              embed_timestamp = Some (utcnow w),
                              embed_image = None,
                              embed_thumbnail = thumb,
                              embed_fields = map (\<lambda>(name, value). (name, value, True)) fields\<rparr>
                in ([Reply (Embed embed) False], None))))"

text \<open>In \<open>userinfo\<close>, outside a guild the author is a plain user, which has no
  \<^verbatim>\<open>top_role\<close>: without a member argument \<^verbatim>\<open>member.top_role\<close> raises before anything is
  sent.\<close>

definition userinfo :: "world \<Rightarrow> command_context \<Rightarrow> member option \<Rightarrow> run" where
  "userinfo w ctx m =
     (if m = None \<and> ctx_guild ctx = None then ([], Some AttributeError) else
      let member = member_or_author ctx m;
          embed = \<lparr>embed_title = member_str member,
                    embed_description = [],
                    embed_timestamp = Some (utcnow w),
                    embed_image = None,
                    embed_thumbnail = Some (display_avatar_url member),
                    embed_fields =
                      [(''ID'', PInt (member_id member), True),
                       (''Bot'', PBool (member_bot member), True),
                       (''Top role'',
                        PStr (case top_role member of Some r \<Rightarrow> role_mention r | None \<Rightarrow> ''None''),
                        True),
                       (''Joined'',
                        PStr (case joined_at member of Some dt \<Rightarrow> format_timedelta w dt
                              | None \<Rightarrow> ''Unknown''),
                        True),
                       (''Created'', PStr (format_timedelta w (member_created_at member)), True)]\<rparr>
      in ([Reply (Embed embed) False], None))"

subsection \<open>Moderation\<close>

text \<open>
  \<^verbatim>\<open>
  async def clear(ctx, amount: int = 10):
      if amount < 1 or amount > 200:
          return await ctx.reply("Please provide a number between 1 and 200.", mention_author=False)
      deleted = await ctx.channel.purge(limit=amount + 1)
      await ctx.channel.send(f"Deleted {len(deleted)-1} messages.", delete_after=5)
  \<close>
\<close>

definition clear :: "world \<Rightarrow> int \<Rightarrow> run" where
  "clear w amount =
     (if amount < 1 \<or> amount > 200 then
        ([Reply (Text ''Please provide a number between 1 and 200.'') False], None)
      else
        (case purge_result w of
           Inl e \<Rightarrow> ([Purge (amount + 1)], Some e)
         | Inr deleted \<Rightarrow>
             ([Purge (amount + 1),
               SendTransient (''Deleted '' @ str_int (int (length deleted) - 1) @ '' messages.'') 5],
              None)))"

definition kick :: "world \<Rightarrow> member \<Rightarrow> string \<Rightarrow> run" where
  "kick w member reason =
     (case kick_result w of
        Some e \<Rightarrow> ([Kick member reason], Some e)
      | None \<Rightarrow>
          ([Kick member reason,
            Reply (Text (''Kicked '' @ member_str member @ '' - '' @ reason)) False], None))"

definition ban :: "world \<Rightarrow> member \<Rightarrow> string \<Rightarrow> run" where
  "ban w member reason =
     (case ban_result w of
        Some e \<Rightarrow> ([Ban member reason], Some e)
      | None \<Rightarrow>
          ([Ban member reason,
            Reply (Text (''Banned '' @ member_str member @ '' - '' @ reason)) False], None))"

definition unban :: "world \<Rightarrow> command_context \<Rightarrow> int \<Rightarrow> run" where
  "unban w ctx user_id =
     (case fetch_user_result w of
        Inl e \<Rightarrow> ([FetchUser user_id], Some e)
      | Inr user \<Rightarrow>
          (case ctx_guild ctx of
             None \<Rightarrow> ([FetchUser user_id], Some AttributeError)
           | Some g \<Rightarrow>
               (case unban_result w of
                  Some e \<Rightarrow> ([FetchUser user_id, Unban user], Some e)
                | None \<Rightarrow>
                    ([FetchUser user_id, Unban user,
                      Reply (Text (''Unbanned '' @ user @ ''.'')) False], None))))"

definition addrole :: "world \<Rightarrow> member \<Rightarrow> role \<Rightarrow> run" where
  "addrole w member role =
     (case add_roles_result w of
        Some e \<Rightarrow> ([AddRoles member role], Some e)
      | None \<Rightarrow>
          ([AddRoles member role,
            Reply (Text (''Added role '' @ role_name role @ '' to '' @ member_mention member @ ''.''))
              False], None))"

definition removerole :: "world \<Rightarrow> member \<Rightarrow> role \<Rightarrow> run" where
  "removerole w member role =
     (case remove_roles_result w of
        Some e \<Rightarrow> ([RemoveRoles member role], Some e)
      | None \<Rightarrow>
          ([RemoveRoles member role,
            Reply (Text (''Removed role '' @ role_name role @ '' from '' @ member_mention member
                         @ ''.'')) False], None))"

subsection \<open>Fun commands\<close>

text \<open>\<^verbatim>\<open>random.randint(a, b)\<close> returns an integer \<open>N\<close> with \<open>a \<le> N \<le> b\<close>, each with the
  same probability; \<^verbatim>\<open>random.choice(seq)\<close> returns an element of a non-empty sequence,
  each position with the same probability. Both are given as the list of their equally
  likely results.\<close>

definition randint :: "int \<Rightarrow> int \<Rightarrow> int list" where
  "randint a b = [a..b]"

definition choice :: "'a list \<Rightarrow> 'a list" where
  "choice seq = seq"

definition EIGHT_BALL_ANSWERS :: "string list" where
  "EIGHT_BALL_ANSWERS =
     [''It is certain.'', ''Without a doubt.'', ''You may rely on it.'',
      ''Ask again later.'', ''Better not tell you now.'', ''Very doubtful.'',
      ''My sources say no.'', ''Signs point to yes.'', ''Absolutely!'', ''No way.'']"

definition pool_8_ball :: string where
  "pool_8_ball = [CHR 0xF0, CHR 0x9F, CHR 0x8E, CHR 0xB1]"

definition game_die :: string where
  "game_die = [CHR 0xF0, CHR 0x9F, CHR 0x8E, CHR 0xB2]"

definition coin_sign :: string where
  "coin_sign = [CHR 0xF0, CHR 0x9F, CHR 0xAA, CHR 0x99]"

definition eightball :: "string \<Rightarrow> run list" where
  "eightball question =
     map (\<lambda>answer.
            ([Choice (length EIGHT_BALL_ANSWERS),
              Reply (Text (pool_8_ball @ '' Question: '' @ question @ [CHR 0x0A]
                           @ ''Answer: **'' @ answer @ ''**'')) False], None))
         (choice EIGHT_BALL_ANSWERS)"

definition coin :: "run list" where
  "coin =
     map (\<lambda>side. ([Choice 2, Reply (Text side) False], None))
         (choice [''Heads '' @ coin_sign, ''Tails '' @ coin_sign])"

text \<open>
  \<^verbatim>\<open>
  async def roll(ctx, sides: int = 6):
      if sides < 2 or sides > 1000000:
          return await ctx.reply("Please choose a number between 2 and 1,000,000.", mention_author=False)
      result = random.randint(1, sides)
      await ctx.reply(f"(die) d{sides} -> **{result}**", mention_author=False)
  \<close>
\<close>

definition roll_reply :: "int \<Rightarrow> int \<Rightarrow> action" where
  "roll_reply sides result =
     Reply (Text (game_die @ '' d'' @ str_int sides @ '' -> **'' @ str_int result @ ''**'')) False"

definition roll :: "int \<Rightarrow> run list" where
  "roll sides =
     (if sides < 2 \<or> sides > 1000000 then
        [([Reply (Text ''Please choose a number between 2 and 1,000,000.'') False], None)]
      else
        map (\<lambda>result. ([Randint 1 sides, roll_reply sides result], None)) (randint 1 sides))"

subsection \<open>The help text\<close>

text \<open>Python's \<^verbatim>\<open>sep.join(parts)\<close> and \<^verbatim>\<open>text.split("\n")\<close>.\<close>

fun join :: "string \<Rightarrow> string list \<Rightarrow> string" where
  "join sep [] = []"
| "join sep [x] = x"
| "join sep (x # y # ys) = x @ sep @ join sep (y # ys)"

fun split_lines :: "string \<Rightarrow> string list" where
  "split_lines [] = [[]]"
| "split_lines (c # cs) =
     (if c = CHR 0x0A then [] # split_lines cs
      else (case split_lines cs of [] \<Rightarrow> [[c]] | l # ls \<Rightarrow> (c # l) # ls))"

text \<open>
  \<^verbatim>\<open>textwrap.dedent(text)\<close>, as the standard library defines it with three regular
  expressions: a line of blanks and tabs only becomes empty
  (\<^verbatim>\<open>'^[ \t]+$'\<close> replaced by nothing); the margin is the longest run of blanks and tabs
  that starts every remaining non-empty line (found line by line over the matches of
  \<^verbatim>\<open>'(^[ \t]*)(?:[^ \t\n])'\<close>); a non-empty margin is removed from the start of every line
  that has it.
\<close>

definition is_blank :: "char \<Rightarrow> bool" where
  "is_blank c = (c = CHR 0x20 \<or> c = CHR 0x09)"

definition whitespace_only :: "string \<Rightarrow> bool" where
  "whitespace_only l = (l \<noteq> [] \<and> list_all is_blank l)"

definition leading_whitespace :: "string \<Rightarrow> string" where
  "leading_whitespace l = takeWhile is_blank l"

text \<open>One step of the loop over the indents: keep the margin if the indent starts with it,
  take the indent if the margin starts with it, else cut the margin at the first
  difference.\<close>

definition update_margin :: "string \<Rightarrow> string \<Rightarrow> string" where
  "update_margin margin indent =
     (if prefix margin indent then margin
      else if prefix indent margin then indent
      else longest_common_prefix margin indent)"

definition find_margin :: "string list \<Rightarrow> string" where
  "find_margin indents = (case indents of [] \<Rightarrow> [] | i # rest \<Rightarrow> foldl update_margin i rest)"

definition remove_margin :: "string \<Rightarrow> string \<Rightarrow> string" where
  "remove_margin margin l = (if prefix margin l then drop (length margin) l else l)"

definition dedent :: "string \<Rightarrow> string" where
  "dedent text =
     (let ls = map (\<lambda>l. if whitespace_only l then [] else l) (split_lines text);
          indents = map leading_whitespace (filter (\<lambda>l. l \<noteq> []) ls);
          margin = find_margin indents
      in join [CHR 0x0A] (map (remove_margin margin) ls))"

text \<open>The f-string of \<open>help_command\<close>, line by line as it stands in the source: it opens
  with a line break and ends with a line of eight blanks. \<open>p\<close> is \<^verbatim>\<open>PREFIX\<close>, \<open>u\<close> is
  \<^verbatim>\<open>str(bot.user)\<close>.\<close>

definition help_fstring_lines :: "string \<Rightarrow> string \<Rightarrow> string list" where
  "help_fstring_lines p u =
     [[],
      ''        NekoNi2 - commands'',
      ''        Prefix: '' @ p,
      [],
      ''        Moderation:'',
      ''          '' @ p @ ''clear <amount>       - Delete messages (requires Manage Messages)'',
      ''          '' @ p @ ''kick <member> [reason]'',
      ''          '' @ p @ ''ban <member> [reason]'',
      ''          '' @ p @ ''unban <user_id>'',
      [],
      ''        Utility:'',
      ''          '' @ p @ ''ping'',
      ''          '' @ p @ ''say <message>        - (requires Manage Messages)'',
      ''          '' @ p @ ''avatar [member]'',
      ''          '' @ p @ ''userinfo [member]'',
      ''          '' @ p @ ''serverinfo'',
      [],
      ''        Fun:'',
      ''          '' @ p @ ''8ball <question>'',
      ''          '' @ p @ ''coin'',
      ''          '' @ p @ ''roll [sides]'',
      [],
      ''        Advanced:'',
      ''          '' @ p @ ''addrole <member> <role>      - requires Manage Roles'',
      ''          '' @ p @ ''removerole <member> <role>'',
      [],
      ''        Use @'' @ u @ '' as a mention or the prefix to run commands.'',
      ''        '']"

definition help_text :: "string \<Rightarrow> string \<Rightarrow> string" where
  "help_text p u = dedent (join [CHR 0x0A] (help_fstring_lines p u))"

definition help_command :: "config \<Rightarrow> world \<Rightarrow> run" where
  "help_command cfg w =
     (let p = PREFIX cfg
      in ([Reply (Text (help_text p (bot_user w))) False], None))"

section \<open>Dispatch\<close>

text \<open>
  The library's command pipeline, as far as the decorators and signatures of \<^verbatim>\<open>app.py\<close>
  drive it: the command name (or an alias) selects the handler; the permissions named by
  \<^verbatim>\<open>@commands.has_permissions\<close> are checked against the caller's; the parameters of the
  handler are bound from the text that follows the command name; the body runs; an
  exception of any stage is handed to \<open>on_command_error\<close>, one raised by the body wrapped
  in \<^verbatim>\<open>CommandInvokeError\<close>.
\<close>

datatype command =
    CmdPing | CmdSay | CmdAvatar | CmdServerinfo | CmdUserinfo | CmdClear | CmdKick | CmdBan
  | CmdUnban | CmdAddrole | CmdRemoverole | CmdEightball | CmdCoin | CmdRoll | CmdHelp

text \<open>Name, aliases and required permissions, from the decorators
  \<^verbatim>\<open>@bot.command(name=..., aliases=[...])\<close> and \<^verbatim>\<open>@commands.has_permissions(...)\<close>.\<close>

definition command_table :: "(string \<times> string list \<times> perm list \<times> command) list" where
  "command_table =
     [(''ping'', [], [], CmdPing),
      (''say'', [], [manage_messages], CmdSay),
      (''avatar'', [], [], CmdAvatar),
      (''serverinfo'', [], [], CmdServerinfo),
      (''userinfo'', [''user''], [], CmdUserinfo),
      (''clear'', [''purge'', ''clean''], [manage_messages], CmdClear),
      (''kick'', [], [kick_members], CmdKick),
      (''ban'', [], [ban_members], CmdBan),
      (''unban'', [], [ban_members], CmdUnban),
      (''addrole'', [], [manage_roles], CmdAddrole),
      (''removerole'', [], [manage_roles], CmdRemoverole),
      (''8ball'', [''eightball''], [], CmdEightball),
      (''coin'', [], [], CmdCoin),
      (''roll'', [], [], CmdRoll),
      (''help'', [], [], CmdHelp)]"

definition get_command :: "string \<Rightarrow> (perm list \<times> command) option" where
  "get_command name =
     map_option (\<lambda>(n, aliases, perms, c). (perms, c))
       (find (\<lambda>(n, aliases, perms, c). name = n \<or> name \<in> set aliases) command_table)"

text \<open>What the library's converters make of the text after the command name, for each
  kind of parameter the handlers declare: nothing left to read, text that does not convert,
  or a value. A handler has at most one parameter of each kind. \<open>arg_rest\<close> is the
  remaining text taken by a keyword-only \<^verbatim>\<open>str\<close> parameter (\<open>None\<close>: nothing left).\<close>

datatype 'a arg = Absent | Malformed | Given 'a

record parsed =
  arg_int :: "int arg"
  arg_member :: "member arg"
  arg_role :: "role arg"
  arg_rest :: "string option"

datatype call =
    Ping | Say string | Avatar "member option" | Serverinfo | Userinfo "member option"
  | Clear int | KickCall member string | BanCall member string | UnbanCall int
  | Addrole member role | Removerole member role | Eightball string | Coin | Roll int | Help

definition required :: "string \<Rightarrow> 'a arg \<Rightarrow> exn + 'a" where
  "required name a =
     (case a of Absent \<Rightarrow> Inl (MissingRequiredArgument name) | Malformed \<Rightarrow> Inl BadArgument
      | Given v \<Rightarrow> Inr v)"

definition with_default :: "'b \<Rightarrow> ('a \<Rightarrow> 'b) \<Rightarrow> 'a arg \<Rightarrow> exn + 'b" where
  "with_default d f a =
     (case a of Absent \<Rightarrow> Inr d | Malformed \<Rightarrow> Inl BadArgument | Given v \<Rightarrow> Inr (f v))"

definition required_rest :: "string \<Rightarrow> string option \<Rightarrow> exn + string" where
  "required_rest name a =
     (case a of None \<Rightarrow> Inl (MissingRequiredArgument name) | Some v \<Rightarrow> Inr v)"

definition rest_or :: "string \<Rightarrow> string option \<Rightarrow> string" where
  "rest_or d a = (case a of None \<Rightarrow> d | Some v \<Rightarrow> v)"

definition and_then :: "exn + 'a \<Rightarrow> ('a \<Rightarrow> exn + 'b) \<Rightarrow> exn + 'b" where
  "and_then r f = (case r of Inl e \<Rightarrow> Inl e | Inr v \<Rightarrow> f v)"

text \<open>The signatures, parameter by parameter, left to right.\<close>

fun bind_arguments :: "command \<Rightarrow> parsed \<Rightarrow> exn + call" where
  "bind_arguments CmdPing a = Inr Ping"
| "bind_arguments CmdSay a = and_then (required_rest ''message'' (arg_rest a)) (\<lambda>m. Inr (Say m))"
| "bind_arguments CmdAvatar a = and_then (with_default None Some (arg_member a)) (\<lambda>m. Inr (Avatar m))"
| "bind_arguments CmdServerinfo a = Inr Serverinfo"
| "bind_arguments CmdUserinfo a =
     and_then (with_default None Some (arg_member a)) (\<lambda>m. Inr (Userinfo m))"
| "bind_arguments CmdClear a = and_then (with_default 10 id (arg_int a)) (\<lambda>n. Inr (Clear n))"
| "bind_arguments CmdKick a =
     and_then (required ''member'' (arg_member a))
       (\<lambda>m. Inr (KickCall m (rest_or ''No reason provided'' (arg_rest a))))"
| "bind_arguments CmdBan a =
     and_then (required ''member'' (arg_member a))
       (\<lambda>m. Inr (BanCall m (rest_or ''No reason provided'' (arg_rest a))))"
| "bind_arguments CmdUnban a = and_then (required ''user_id'' (arg_int a)) (\<lambda>n. Inr (UnbanCall n))"
| "bind_arguments CmdAddrole a =
     and_then (required ''member'' (arg_member a))
       (\<lambda>m. and_then (required ''role'' (arg_role a)) (\<lambda>r. Inr (Addrole m r)))"
| "bind_arguments CmdRemoverole a =
     and_then (required ''member'' (arg_member a))
       (\<lambda>m. and_then (required ''role'' (arg_role a)) (\<lambda>r. Inr (Removerole m r)))"
| "bind_arguments CmdEightball a =
     and_then (required_rest ''question'' (arg_rest a)) (\<lambda>q. Inr (Eightball q))"
| "bind_arguments CmdCoin a = Inr Coin"
| "bind_arguments CmdRoll a = and_then (with_default 6 id (arg_int a)) (\<lambda>n. Inr (Roll n))"
| "bind_arguments CmdHelp a = Inr Help"

fun run_call :: "config \<Rightarrow> world \<Rightarrow> command_context \<Rightarrow> call \<Rightarrow> run list" where
  "run_call cfg w ctx Ping = [ping w]"
| "run_call cfg w ctx (Say message) = [say w message]"
| "run_call cfg w ctx (Avatar m) = [avatar ctx m]"
| "run_call cfg w ctx Serverinfo = [serverinfo w ctx]"
| "run_call cfg w ctx (Userinfo m) = [userinfo w ctx m]"
| "run_call cfg w ctx (Clear amount) = [clear w amount]"
| "run_call cfg w ctx (KickCall m reason) = [kick w m reason]"
| "run_call cfg w ctx (BanCall m reason) = [ban w m reason]"
| "run_call cfg w ctx (UnbanCall user_id) = [unban w ctx user_id]"
| "run_call cfg w ctx (Addrole m r) = [addrole w m r]"
| "run_call cfg w ctx (Removerole m r) = [removerole w m r]"
| "run_call cfg w ctx (Eightball question) = eightball question"
| "run_call cfg w ctx Coin = coin"
| "run_call cfg w ctx (Roll sides) = roll sides"
| "run_call cfg w ctx Help = [help_command cfg w]"

text \<open>The requests of a whole invocation: those of the body, then those of the error hook
  if the body raised.\<close>

definition with_error_hook :: "run \<Rightarrow> action list" where
  "with_error_hook r =
     (case snd r of None \<Rightarrow> fst r
      | Some e \<Rightarrow> fst r @ on_command_error (CommandInvokeError e))"

definition invoke ::
  "config \<Rightarrow> world \<Rightarrow> command_context \<Rightarrow> string \<Rightarrow> parsed \<Rightarrow> action list list" where
  "invoke cfg w ctx name a =
     (case get_command name of
        None \<Rightarrow> [on_command_error (CommandNotFound name)]
      | Some (perms, c) \<Rightarrow>
          (let missing = filter (\<lambda>q. q \<notin> set (author_permissions ctx)) perms
           in if missing \<noteq> [] then [on_command_error (MissingPermissions missing)]
              else (case bind_arguments c a of
                      Inl e \<Rightarrow> [on_command_error e]
                    | Inr cl \<Rightarrow> map with_error_hook (run_call cfg w ctx cl))))"

section \<open>Sample values\<close>

text \<open>A guild, a member, a caller and the library's answers for one invocation, used to
  run the handlers on concrete inputs. In \<open>example_world\<close> the purge removed three messages
  (the command and the only two messages before it) and the deletion of the invoking
  message was refused.\<close>

definition example_role :: role where
  "example_role = \<lparr>role_name = ''mods'', role_mention = ''<@&7>''\<rparr>"

definition example_member :: member where
  "example_member =
     \<lparr>member_str = ''ada'', member_mention = ''<@42>'', member_id = 42, member_bot = False,
      display_avatar_url = ''https://cdn.example/42.png'', top_role = Some example_role,
      joined_at = None, member_created_at = 0\<rparr>"

definition example_guild :: guild where
  "example_guild =
     \<lparr>guild_name = ''Lab'', guild_description = None, guild_icon_url = None, guild_id = 1,
      guild_owner = ''ada'', member_count = 2,
      text_channels =
        [\<lparr>channel_name = ''rules'', channel_id = 10, bot_can_send = True\<rparr>,
         \<lparr>channel_name = ''general'', channel_id = 11, bot_can_send = True\<rparr>],
      voice_channels = 0, guild_roles = 1, guild_created_at = 0\<rparr>"

definition example_config :: config where
  "example_config =
     \<lparr>PREFIX = ''!'', TOKEN = Some ''abc'', WELCOME_CHANNEL = ''general'', OWNER_ID = None\<rparr>"

definition example_world :: world where
  "example_world =
     \<lparr>ws_latency = Inr 0, bot_user = ''NekoNi2#0001'', utcnow = 0,
      strftime = (\<lambda>dt fmt. ''1970-01-01 00:00:00 UTC''),
      embed_Empty = Inl AttributeError,
      delete_result = Some Forbidden,
      purge_result = Inr [104, 103, 102],
      kick_result = None, ban_result = None, fetch_user_result = Inl NotFound,
      unban_result = None, add_roles_result = None, remove_roles_result = None\<rparr>"

definition example_context :: command_context where
  "example_context =
     \<lparr>author = example_member, author_permissions = [manage_messages, ban_members],
      ctx_guild = Some example_guild\<rparr>"

definition no_arguments :: parsed where
  "no_arguments = \<lparr>arg_int = Absent, arg_member = Absent, arg_role = Absent, arg_rest = None\<rparr>"

text \<open>A list of requests in which no reply asks to mention the author.\<close>

definition quiet :: "action list \<Rightarrow> bool" where
  "quiet tr = (\<forall>c. Reply c True \<notin> set tr)"

section \<open>Auxiliary facts\<close>

lemma digits_small: "n < 10 \<Longrightarrow> digits n = [''0123456789'' ! n]"
  by (subst digits.simps) simp

lemma digits_big: "10 \<le> n \<Longrightarrow> digits n = digits (n div 10) @ [''0123456789'' ! (n mod 10)]"
  by (subst digits.simps) simp

lemma get_command_clear:
  "get_command ''clear'' = Some ([manage_messages], CmdClear)"
  "get_command ''purge'' = Some ([manage_messages], CmdClear)"
  "get_command ''clean'' = Some ([manage_messages], CmdClear)"
  by (simp_all add: get_command_def command_table_def)

lemma error_reply_shape:
  "error_reply e = [] \<or> (\<exists>t. error_reply e = [Reply (Text t) False])
   \<or> (\<exists>l t. error_reply e = [LogException l, Reply (Text t) False])"
  by (cases e) simp_all

lemma on_command_error_replies:
  "Reply c True \<notin> set (on_command_error e)"
  using error_reply_shape [of "unwrap e"] by (auto simp add: on_command_error_def)

lemma quiet_hook: "quiet (fst r) \<Longrightarrow> quiet (with_error_hook r)"
  using on_command_error_replies by (auto simp add: quiet_def with_error_hook_def split: option.splits)

lemma quiet_ping: "quiet (fst (ping w))" by (simp add: quiet_def ping_def split: sum.splits)
lemma quiet_say: "quiet (fst (say w m))" by (simp add: quiet_def say_def split: option.splits)
lemma quiet_avatar: "quiet (fst (avatar ctx m))" by (simp add: quiet_def avatar_def Let_def)
lemma quiet_serverinfo: "quiet (fst (serverinfo w ctx))"
  by (simp add: quiet_def serverinfo_def Let_def split: option.splits sum.splits)
lemma quiet_userinfo: "quiet (fst (userinfo w ctx m))" by (simp add: quiet_def userinfo_def Let_def)
lemma quiet_clear: "quiet (fst (clear w n))" by (simp add: quiet_def clear_def split: sum.splits)
lemma quiet_kick: "quiet (fst (kick w m r))" by (simp add: quiet_def kick_def split: option.splits)
lemma quiet_ban: "quiet (fst (ban w m r))" by (simp add: quiet_def ban_def split: option.splits)
lemma quiet_unban: "quiet (fst (unban w ctx n))"
  by (simp add: quiet_def unban_def split: option.splits sum.splits)
lemma quiet_addrole: "quiet (fst (addrole w m r))" by (simp add: quiet_def addrole_def split: option.splits)
lemma quiet_removerole: "quiet (fst (removerole w m r))"
  by (simp add: quiet_def removerole_def split: option.splits)
lemma quiet_eightball: "r \<in> set (eightball q) \<Longrightarrow> quiet (fst r)"
  by (auto simp add: quiet_def eightball_def)
lemma quiet_coin: "r \<in> set coin \<Longrightarrow> quiet (fst r)" by (auto simp add: quiet_def coin_def)
lemma quiet_roll: "r \<in> set (roll n) \<Longrightarrow> quiet (fst r)"
  by (auto simp add: quiet_def roll_def roll_reply_def split: if_splits)
lemma quiet_help: "quiet (fst (help_command cfg w))" by (simp add: quiet_def help_command_def Let_def)

lemma quiet_run_call: "r \<in> set (run_call cfg w ctx cl) \<Longrightarrow> quiet (fst r)"
  by (cases cl)
     (auto simp add: quiet_ping quiet_say quiet_avatar quiet_serverinfo quiet_userinfo quiet_clear
        quiet_kick quiet_ban quiet_unban quiet_addrole quiet_removerole quiet_help
        dest: quiet_eightball quiet_coin quiet_roll)


subsection \<open>Lines, margins and the help text\<close>

lemma split_lines_not_Nil [simp]: "split_lines s \<noteq> []"
  by (induction s) (auto split: list.splits)

lemma split_lines_no_newline: "CHR 0x0A \<notin> set s \<Longrightarrow> split_lines s = [s]"
  by (induction s) auto

lemma split_lines_append:
  "split_lines (a @ b) =
     butlast (split_lines a) @ [last (split_lines a) @ hd (split_lines b)] @ tl (split_lines b)"
proof (induction a)
  case Nil
  then show ?case by simp
next
  case (Cons c cs)
  obtain l ls where S: "split_lines cs = l # ls"
    by (cases "split_lines cs") auto
  show ?case
    using Cons S by (cases ls) auto
qed

lemma split_lines_newline:
  "split_lines (a @ CHR 0x0A # b) = split_lines a @ split_lines b"
  by (simp add: split_lines_append [of a])

lemma split_lines_join:
  "ls \<noteq> [] \<Longrightarrow> split_lines (join [CHR 0x0A] ls) = concat (map split_lines ls)"
proof (induction "[CHR 0x0A]" ls rule: join.induct)
  case 1
  then show ?case by simp
next
  case (2 x)
  then show ?case by simp
next
  case (3 x y ys)
  then show ?case by (simp add: split_lines_newline)
qed

lemma sublist_join: "l \<in> set ls \<Longrightarrow> sublist l (join sep ls)"
proof (induction sep ls rule: join.induct)
  case (1 sep)
  then show ?case by simp
next
  case (2 sep x)
  then show ?case by simp
next
  case (3 sep x y ys)
  show ?case
  proof (cases "l = x")
    case True
    then show ?thesis by simp
  next
    case False
    with 3 have "sublist l (join sep (y # ys))" by simp
    then obtain ps ss where "join sep (y # ys) = ps @ l @ ss"
      by (auto simp add: sublist_def)
    then have "join sep (x # y # ys) = (x @ sep @ ps) @ l @ ss" by simp
    then show ?thesis unfolding sublist_def by blast
  qed
qed

lemma update_margin_prefix:
  "prefix (update_margin m i) m" "prefix (update_margin m i) i"
  by (auto simp add: update_margin_def longest_common_prefix_prefix1 longest_common_prefix_prefix2)

lemma foldl_update_margin_prefix:
  "prefix (foldl update_margin i rest) i \<and> (\<forall>x \<in> set rest. prefix (foldl update_margin i rest) x)"
proof (induction rest arbitrary: i)
  case Nil
  then show ?case by simp
next
  case (Cons x xs)
  have a: "prefix (foldl update_margin (update_margin i x) xs) (update_margin i x)"
    and b: "\<forall>y \<in> set xs. prefix (foldl update_margin (update_margin i x) xs) y"
    using Cons [of "update_margin i x"] by auto
  from a have "prefix (foldl update_margin (update_margin i x) xs) i"
    and "prefix (foldl update_margin (update_margin i x) xs) x"
    using update_margin_prefix [of i x] by (auto intro: prefix_order.trans)
  with b show ?case by simp
qed

lemma find_margin_prefix: "i \<in> set indents \<Longrightarrow> prefix (find_margin indents) i"
  using foldl_update_margin_prefix
  by (cases indents) (auto simp add: find_margin_def)

text \<open>A line of the text that is not blank survives with at most its leading blanks cut.\<close>

lemma dedent_keeps_line:
  assumes "t \<in> set (split_lines text)" and "\<not> list_all is_blank t"
  shows "\<exists>m. prefix m (leading_whitespace t) \<and> sublist (drop (length m) t) (dedent text)
           \<and> (\<forall>t' \<in> set (split_lines text). \<not> list_all is_blank t' \<longrightarrow> prefix m (leading_whitespace t'))"
proof -
  define ls where "ls = map (\<lambda>l. if whitespace_only l then [] else l) (split_lines text)"
  define m where "m = find_margin (map leading_whitespace (filter (\<lambda>l. l \<noteq> []) ls))"
  have kept: "t' \<in> set ls \<and> t' \<noteq> []" if "t' \<in> set (split_lines text)" "\<not> list_all is_blank t'" for t'
    using that unfolding ls_def by (force simp add: whitespace_only_def)
  have pre: "prefix m (leading_whitespace t')" if "t' \<in> set (split_lines text)" "\<not> list_all is_blank t'" for t'
    unfolding m_def using kept [OF that] by (intro find_margin_prefix) auto
  have "prefix (leading_whitespace t) t"
    by (simp add: leading_whitespace_def takeWhile_is_prefix)
  with pre [OF assms] have "prefix m t" by (rule prefix_order.trans)
  then have "remove_margin m t = drop (length m) t" by (simp add: remove_margin_def)
  moreover have "dedent text = join [CHR 0x0A] (map (remove_margin m) ls)"
    by (simp add: dedent_def ls_def m_def Let_def)
  moreover have "remove_margin m t \<in> set (map (remove_margin m) ls)"
    using kept [OF assms] by simp
  ultimately have "sublist (drop (length m) t) (dedent text)"
    using sublist_join by metis
  with pre [OF assms] pre show ?thesis by blast
qed
lemma leading_whitespace_bound:
  "\<not> is_blank c \<Longrightarrow> length (leading_whitespace (a @ c # r)) \<le> length a"
  unfolding leading_whitespace_def
  by (induction a) auto

lemma help_fstring_line:
  assumes "t \<in> set (help_fstring_lines p u)" and "l \<in> set (split_lines t)"
  shows "l \<in> set (split_lines (join [CHR 0x0A] (help_fstring_lines p u)))"
proof -
  have "help_fstring_lines p u \<noteq> []" by (simp add: help_fstring_lines_def)
  then show ?thesis using assms by (auto simp add: split_lines_join)
qed

lemma title_line:
  "''        NekoNi2 - commands'' \<in> set (split_lines (join [CHR 0x0A] (help_fstring_lines p u)))"
proof (rule help_fstring_line)
  show "''        NekoNi2 - commands'' \<in> set (help_fstring_lines p u)"
    by (simp add: help_fstring_lines_def)
  show "''        NekoNi2 - commands'' \<in> set (split_lines ''        NekoNi2 - commands'')"
    by (subst split_lines_no_newline) simp_all
qed

lemma sublist_trans: "sublist a b \<Longrightarrow> sublist b c \<Longrightarrow> sublist a c"
  by (rule sublist_order.order.trans)

lemma entry_kept:
  assumes entry: "ind @ p @ c # rest \<in> set (help_fstring_lines p u)"
    and ind: "8 \<le> length ind" "CHR 0x0A \<notin> set ind"
    and c: "\<not> is_blank c" and nl: "CHR 0x0A \<notin> set (c # rest)"
  shows "sublist (c # rest) (help_text p u)"
    and "CHR 0x0A \<notin> set p \<Longrightarrow> sublist (p @ c # rest) (help_text p u)"
proof -
  let ?text = "join [CHR 0x0A] (help_fstring_lines p u)"
  define S where "S = split_lines (ind @ p)"
  define t where "t = last S @ c # rest"
  have "split_lines (c # rest) = [c # rest]"
    using nl by (rule split_lines_no_newline)
  then have "split_lines ((ind @ p) @ c # rest) = butlast S @ [t]"
    unfolding S_def t_def by (subst split_lines_append) simp
  then have "t \<in> set (split_lines (ind @ p @ c # rest))" by simp
  with entry have line: "t \<in> set (split_lines ?text)" by (rule help_fstring_line)
  have nb: "\<not> list_all is_blank t" using c by (simp add: t_def)
  from dedent_keeps_line [OF line nb] obtain m where
    m: "prefix m (leading_whitespace t)" and sub: "sublist (drop (length m) t) (dedent ?text)"
    and all: "\<forall>t' \<in> set (split_lines ?text). \<not> list_all is_blank t' \<longrightarrow> prefix m (leading_whitespace t')"
    by blast
  have "length m \<le> length (leading_whitespace t)" using m by (rule prefix_length_le)
  also have "\<dots> \<le> length (last S)" unfolding t_def using c by (rule leading_whitespace_bound)
  finally have "drop (length m) t = drop (length m) (last S) @ c # rest" by (simp add: t_def)
  then have "sublist (c # rest) (drop (length m) t)" by simp
  then show "sublist (c # rest) (help_text p u)"
    using sub unfolding help_text_def by (rule sublist_trans)
  assume p: "CHR 0x0A \<notin> set p"
  with ind have "split_lines (ind @ p) = [ind @ p]" by (intro split_lines_no_newline) simp
  then have t: "t = ind @ p @ c # rest" by (simp add: t_def S_def)
  have "prefix m (leading_whitespace ''        NekoNi2 - commands'')"
    using all title_line [of p u] by (simp add: is_blank_def)
  then have "length m \<le> 8"
    by (auto dest!: prefix_length_le simp add: leading_whitespace_def is_blank_def)
  with ind have d: "drop (length m) t = drop (length m) ind @ (p @ c # rest)"
    by (simp add: t)
  have "sublist (p @ c # rest) (drop (length m) t)"
    unfolding d by (rule sublist_append_leftI)
  then show "sublist (p @ c # rest) (help_text p u)"
    using sub unfolding help_text_def by (rule sublist_trans)
qed

lemma prefix_of_entry: "sublist (n @ z) t \<Longrightarrow> sublist n t"
  by (metis sublist_append_rightI sublist_trans)

lemma entries_in_fstring:
  "s \<in> {''clear <amount>       - Delete messages (requires Manage Messages)'',
         ''kick <member> [reason]'', ''ban <member> [reason]'', ''unban <user_id>'',
         ''ping'', ''say <message>        - (requires Manage Messages)'', ''avatar [member]'',
         ''userinfo [member]'', ''serverinfo'', ''8ball <question>'', ''coin'', ''roll [sides]'',
         ''addrole <member> <role>      - requires Manage Roles'', ''removerole <member> <role>''}
   \<Longrightarrow> ''          '' @ p @ s \<in> set (help_fstring_lines p u)"
  by (auto simp add: help_fstring_lines_def)
lemma entry_sub:
  assumes "s \<in> {''clear <amount>       - Delete messages (requires Manage Messages)'',
         ''kick <member> [reason]'', ''ban <member> [reason]'', ''unban <user_id>'',
         ''ping'', ''say <message>        - (requires Manage Messages)'', ''avatar [member]'',
         ''userinfo [member]'', ''serverinfo'', ''8ball <question>'', ''coin'', ''roll [sides]'',
         ''addrole <member> <role>      - requires Manage Roles'', ''removerole <member> <role>''}"
  shows "sublist s (help_text p u)"
    and "CHR 0x0A \<notin> set p \<Longrightarrow> sublist (p @ s) (help_text p u)"
proof -
  have e: "''          '' @ p @ s \<in> set (help_fstring_lines p u)"
    using assms by (rule entries_in_fstring)
  have "s \<noteq> [] \<and> \<not> is_blank (hd s) \<and> CHR 0x0A \<notin> set s"
    using assms by (auto simp add: is_blank_def)
  then obtain c rest where s: "s = c # rest" "\<not> is_blank c" "CHR 0x0A \<notin> set (c # rest)"
    by (cases s) auto
  note e' = e [unfolded s(1)]
  show "sublist s (help_text p u)"
    unfolding s(1) by (rule entry_kept(1) [OF e' _ _ s(2) s(3)]) simp_all
  show "CHR 0x0A \<notin> set p \<Longrightarrow> sublist (p @ s) (help_text p u)"
    unfolding s(1) by (rule entry_kept(2) [OF e' _ _ s(2) s(3)]) simp_all
qed

lemma name_sub:
  assumes "n \<in> {''ping'', ''say'', ''avatar'', ''serverinfo'', ''userinfo'', ''user'', ''clear'',
                 ''kick'', ''ban'', ''unban'', ''addrole'', ''removerole'', ''8ball'', ''coin'', ''roll''}"
  shows "sublist n (help_text p u)"
proof -
  have named: "sublist n' (help_text p u)"
    if "sublist (n' @ z) (help_text p u)" for n' z
    using that by (rule prefix_of_entry)
  have "sublist ''ping'' (help_text p u)"
    by (rule entry_sub(1)) simp
  moreover have "sublist ''say'' (help_text p u)"
    by (rule named [of _ "'' <message>        - (requires Manage Messages)''"], rule entry_sub(1)) simp
  moreover have "sublist ''avatar'' (help_text p u)"
    by (rule named [of _ "'' [member]''"], rule entry_sub(1)) simp
  moreover have "sublist ''serverinfo'' (help_text p u)"
    by (rule entry_sub(1)) simp
  moreover have "sublist ''userinfo'' (help_text p u)"
    by (rule named [of _ "'' [member]''"], rule entry_sub(1)) simp
  moreover have "sublist ''user'' (help_text p u)"
    by (rule named [of _ "''info [member]''"], rule entry_sub(1)) simp
  moreover have "sublist ''clear'' (help_text p u)"
    by (rule named [of _ "'' <amount>       - Delete messages (requires Manage Messages)''"],
        rule entry_sub(1)) simp
  moreover have "sublist ''kick'' (help_text p u)"
    by (rule named [of _ "'' <member> [reason]''"], rule entry_sub(1)) simp
  moreover have "sublist ''ban'' (help_text p u)"
    by (rule named [of _ "'' <member> [reason]''"], rule entry_sub(1)) simp
  moreover have "sublist ''unban'' (help_text p u)"
    by (rule named [of _ "'' <user_id>''"], rule entry_sub(1)) simp
  moreover have "sublist ''addrole'' (help_text p u)"
    by (rule named [of _ "'' <member> <role>      - requires Manage Roles''"], rule entry_sub(1)) simp
  moreover have "sublist ''removerole'' (help_text p u)"
    by (rule named [of _ "'' <member> <role>''"], rule entry_sub(1)) simp
  moreover have "sublist ''8ball'' (help_text p u)"
    by (rule named [of _ "'' <question>''"], rule entry_sub(1)) simp
  moreover have "sublist ''coin'' (help_text p u)"
    by (rule entry_sub(1)) simp
  moreover have "sublist ''roll'' (help_text p u)"
    by (rule named [of _ "'' [sides]''"], rule entry_sub(1)) simp
  ultimately show ?thesis using assms by blast
qed


lemma concat_split_lines:
  "\<forall>l \<in> set ls. CHR 0x0A \<notin> set l \<Longrightarrow> concat (map split_lines ls) = ls"
  by (induction ls) (simp_all add: split_lines_no_newline)

lemma update_margin_lower:
  "prefix m a \<Longrightarrow> prefix m b \<Longrightarrow> prefix m (update_margin a b)"
  by (simp add: update_margin_def longest_common_prefix_max_prefix)

lemma foldl_update_margin_lower:
  "prefix m i \<Longrightarrow> \<forall>x \<in> set rest. prefix m x \<Longrightarrow> prefix m (foldl update_margin i rest)"
  by (induction rest arbitrary: i) (simp_all add: update_margin_lower)

lemma find_margin_lower:
  "indents \<noteq> [] \<Longrightarrow> \<forall>i \<in> set indents. prefix m i \<Longrightarrow> prefix m (find_margin indents)"
  by (cases indents) (simp_all add: find_margin_def foldl_update_margin_lower)

lemma leading_whitespace_prefix:
  "prefix m l \<Longrightarrow> list_all is_blank m \<Longrightarrow> prefix m (leading_whitespace l)"
  unfolding leading_whitespace_def
  by (auto simp add: prefix_def list_all_iff takeWhile_append2 dest!: spec)

text \<open>The text made of lines without line breaks, all of them blank or starting with the
  same run of blanks, one of them with no more blanks than that: the margin is that run.\<close>

lemma dedent_lines:
  assumes nl: "\<forall>l \<in> set ls. CHR 0x0A \<notin> set l" and ne: "ls \<noteq> []"
    and m: "list_all is_blank m"
    and shape: "\<forall>l \<in> set ls. list_all is_blank l \<or> prefix m l"
    and tight: "t \<in> set ls" "\<not> list_all is_blank t" "leading_whitespace t = m"
  shows "dedent (join [CHR 0x0A] ls) =
           join [CHR 0x0A] (map (\<lambda>l. if list_all is_blank l then [] else drop (length m) l) ls)"
proof -
  define norm where "norm = (\<lambda>l. if whitespace_only l then [] else l)"
  define indents where "indents = map leading_whitespace (filter (\<lambda>l. l \<noteq> []) (map norm ls))"
  have lines: "split_lines (join [CHR 0x0A] ls) = ls"
    using nl ne by (simp add: split_lines_join concat_split_lines)
  have norm_blank: "norm l = []" if "list_all is_blank l" for l
    using that by (cases l) (simp_all add: norm_def whitespace_only_def)
  have norm_keep: "norm l = l \<and> l \<noteq> []" if "\<not> list_all is_blank l" for l
    using that by (cases l) (simp_all add: norm_def whitespace_only_def)
  have ind: "set indents = leading_whitespace ` {l \<in> set ls. \<not> list_all is_blank l}"
    unfolding indents_def using norm_blank norm_keep by (auto simp add: image_iff) metis+
  have in_ind: "m \<in> set indents"
    unfolding ind using tight by force
  then have "indents \<noteq> []" by auto
  moreover have "\<forall>i \<in> set indents. prefix m i"
    unfolding ind using shape m by (auto intro: leading_whitespace_prefix)
  ultimately have "prefix m (find_margin indents)" by (rule find_margin_lower)
  moreover have "prefix (find_margin indents) m"
    using in_ind by (rule find_margin_prefix)
  ultimately have margin: "find_margin indents = m" by (rule prefix_order.antisym [symmetric])
  have each: "remove_margin m (norm l) = (if list_all is_blank l then [] else drop (length m) l)"
    if "l \<in> set ls" for l
  proof (cases "list_all is_blank l")
    case True
    then show ?thesis by (simp add: norm_blank remove_margin_def)
  next
    case False
    with shape that have "prefix m l" by blast
    with False show ?thesis by (simp add: norm_keep remove_margin_def)
  qed
  have "dedent (join [CHR 0x0A] ls) = join [CHR 0x0A] (map (remove_margin m) (map norm ls))"
    using margin by (simp add: dedent_def lines norm_def indents_def Let_def)
  also have "map (remove_margin m) (map norm ls) =
               map (\<lambda>l. if list_all is_blank l then [] else drop (length m) l) ls"
    using each by simp
  finally show ?thesis .
qed

lemma help_fstring_lines_shape:
  assumes "CHR 0x0A \<notin> set p" and "CHR 0x0A \<notin> set u"
  shows "\<forall>l \<in> set (help_fstring_lines p u). CHR 0x0A \<notin> set l"
    and "\<forall>l \<in> set (help_fstring_lines p u). list_all is_blank l \<or> prefix ''        '' l"
  using assms by (simp_all add: help_fstring_lines_def)

lemma help_text_exact:
  assumes "CHR 0x0A \<notin> set p" and "CHR 0x0A \<notin> set u"
  shows "help_text p u =
     join [CHR 0x0A]
       [[],
        ''NekoNi2 - commands'',
        ''Prefix: '' @ p,
        [],
        ''Moderation:'',
        ''  '' @ p @ ''clear <amount>       - Delete messages (requires Manage Messages)'',
        ''  '' @ p @ ''kick <member> [reason]'',
        ''  '' @ p @ ''ban <member> [reason]'',
        ''  '' @ p @ ''unban <user_id>'',
        [],
        ''Utility:'',
        ''  '' @ p @ ''ping'',
        ''  '' @ p @ ''say <message>        - (requires Manage Messages)'',
        ''  '' @ p @ ''avatar [member]'',
        ''  '' @ p @ ''userinfo [member]'',
        ''  '' @ p @ ''serverinfo'',
        [],
        ''Fun:'',
        ''  '' @ p @ ''8ball <question>'',
        ''  '' @ p @ ''coin'',
        ''  '' @ p @ ''roll [sides]'',
        [],
        ''Advanced:'',
        ''  '' @ p @ ''addrole <member> <role>      - requires Manage Roles'',
        ''  '' @ p @ ''removerole <member> <role>'',
        [],
        ''Use @'' @ u @ '' as a mention or the prefix to run commands.'',
        []]"
proof -
  have ne: "help_fstring_lines p u \<noteq> []" by (simp add: help_fstring_lines_def)
  have m: "list_all is_blank ''        ''" by (simp add: is_blank_def)
  have t: "''        NekoNi2 - commands'' \<in> set (help_fstring_lines p u)"
    "\<not> list_all is_blank ''        NekoNi2 - commands''"
    "leading_whitespace ''        NekoNi2 - commands'' = ''        ''"
    by (simp_all add: help_fstring_lines_def is_blank_def leading_whitespace_def)
  have "help_text p u =
          join [CHR 0x0A]
            (map (\<lambda>l. if list_all is_blank l then [] else drop (length ''        '') l)
               (help_fstring_lines p u))"
    unfolding help_text_def
    by (rule dedent_lines [OF help_fstring_lines_shape(1) [OF assms] ne m
          help_fstring_lines_shape(2) [OF assms] t])
  also have "map (\<lambda>l. if list_all is_blank l then [] else drop (length ''        '') l)
               (help_fstring_lines p u) =
       [[],
        ''NekoNi2 - commands'',
        ''Prefix: '' @ p,
        [],
        ''Moderation:'',
        ''  '' @ p @ ''clear <amount>       - Delete messages (requires Manage Messages)'',
        ''  '' @ p @ ''kick <member> [reason]'',
        ''  '' @ p @ ''ban <member> [reason]'',
        ''  '' @ p @ ''unban <user_id>'',
        [],
        ''Utility:'',
        ''  '' @ p @ ''ping'',
        ''  '' @ p @ ''say <message>        - (requires Manage Messages)'',
        ''  '' @ p @ ''avatar [member]'',
        ''  '' @ p @ ''userinfo [member]'',
        ''  '' @ p @ ''serverinfo'',
        [],
        ''Fun:'',
        ''  '' @ p @ ''8ball <question>'',
        ''  '' @ p @ ''coin'',
        ''  '' @ p @ ''roll [sides]'',
        [],
        ''Advanced:'',
        ''  '' @ p @ ''addrole <member> <role>      - requires Manage Roles'',
        ''  '' @ p @ ''removerole <member> <role>'',
        [],
        ''Use @'' @ u @ '' as a mention or the prefix to run commands.'',
        []]"
    by (simp add: help_fstring_lines_def is_blank_def)
  finally show ?thesis .
qed

lemma help_text_no_entry:
  assumes "CHR 0x0A \<notin> set p" and "CHR 0x0A \<notin> set u"
    and "w \<in> {''help'', ''purge'', ''clean'', ''eightball''}"
    and "l \<in> set (split_lines (help_text p u))"
  shows "\<not> prefix (''  '' @ p @ w) l"
proof -
  have "split_lines (help_text p u) =
       [[],
        ''NekoNi2 - commands'',
        ''Prefix: '' @ p,
        [],
        ''Moderation:'',
        ''  '' @ p @ ''clear <amount>       - Delete messages (requires Manage Messages)'',
        ''  '' @ p @ ''kick <member> [reason]'',
        ''  '' @ p @ ''ban <member> [reason]'',
        ''  '' @ p @ ''unban <user_id>'',
        [],
        ''Utility:'',
        ''  '' @ p @ ''ping'',
        ''  '' @ p @ ''say <message>        - (requires Manage Messages)'',
        ''  '' @ p @ ''avatar [member]'',
        ''  '' @ p @ ''userinfo [member]'',
        ''  '' @ p @ ''serverinfo'',
        [],
        ''Fun:'',
        ''  '' @ p @ ''8ball <question>'',
        ''  '' @ p @ ''coin'',
        ''  '' @ p @ ''roll [sides]'',
        [],
        ''Advanced:'',
        ''  '' @ p @ ''addrole <member> <role>      - requires Manage Roles'',
        ''  '' @ p @ ''removerole <member> <role>'',
        [],
        ''Use @'' @ u @ '' as a mention or the prefix to run commands.'',
        []]"
    unfolding help_text_exact [OF assms(1,2)]
    using assms(1,2) by (subst split_lines_join) (simp_all add: split_lines_no_newline)
  with assms(4) have "l \<in> {[],
        ''NekoNi2 - commands'',
        ''Prefix: '' @ p,
        ''Moderation:'',
        ''  '' @ p @ ''clear <amount>       - Delete messages (requires Manage Messages)'',
        ''  '' @ p @ ''kick <member> [reason]'',
        ''  '' @ p @ ''ban <member> [reason]'',
        ''  '' @ p @ ''unban <user_id>'',
        ''Utility:'',
        ''  '' @ p @ ''ping'',
        ''  '' @ p @ ''say <message>        - (requires Manage Messages)'',
        ''  '' @ p @ ''avatar [member]'',
        ''  '' @ p @ ''userinfo [member]'',
        ''  '' @ p @ ''serverinfo'',
        ''Fun:'',
        ''  '' @ p @ ''8ball <question>'',
        ''  '' @ p @ ''coin'',
        ''  '' @ p @ ''roll [sides]'',
        ''Advanced:'',
        ''  '' @ p @ ''addrole <member> <role>      - requires Manage Roles'',
        ''  '' @ p @ ''removerole <member> <role>'',
        ''Use @'' @ u @ '' as a mention or the prefix to run commands.''}"
    by auto
  then show ?thesis
    using assms(3) by (elim insertE emptyE) simp_all
qed

section \<open>Properties\<close>

subsection \<open>clear\<close>

text \<open>C1. For every invocation of clear (or its aliases purge and clean) with an integer
  \<open>amount\<close>: outside 1..200 the handler sends the rejection reply and makes no deletion
  request; inside, it requests a purge with limit \<open>amount + 1\<close> and, once the purge has
  returned the removed messages, sends the notice "Deleted N messages." with
  \<^verbatim>\<open>delete_after=5\<close> (an exception of the purge request ends the handler there). Without
  an argument the amount is 10.\<close>

theorem clear_behaviour:
  "(amount < 1 \<or> amount > 200 \<longrightarrow>
      clear w amount = ([Reply (Text ''Please provide a number between 1 and 200.'') False], None)
      \<and> \<not> list_ex is_deletion (fst (clear w amount)))
   \<and> (1 \<le> amount \<and> amount \<le> 200 \<longrightarrow>
        (\<forall>deleted. purge_result w = Inr deleted \<longrightarrow>
           clear w amount =
             ([Purge (amount + 1),
               SendTransient (''Deleted '' @ str_int (int (length deleted) - 1) @ '' messages.'') 5],
              None))
        \<and> (\<forall>e. purge_result w = Inl e \<longrightarrow> clear w amount = ([Purge (amount + 1)], Some e)))
   \<and> (\<forall>name \<in> {''clear'', ''purge'', ''clean''}.
        get_command name = Some ([manage_messages], CmdClear))
   \<and> bind_arguments CmdClear (a\<lparr>arg_int := Given amount\<rparr>) = Inr (Clear amount)
   \<and> bind_arguments CmdClear (a\<lparr>arg_int := Absent\<rparr>) = Inr (Clear 10)
   \<and> run_call cfg w ctx (Clear amount) = [clear w amount]"
  by (simp add: clear_def get_command_clear and_then_def with_default_def)

theorem clear_behaviour_witness:
  "clear example_world 3 = ([Purge 4, SendTransient ''Deleted 2 messages.'' 5], None)
   \<and> clear example_world 201 =
       ([Reply (Text ''Please provide a number between 1 and 200.'') False], None)
   \<and> get_command ''purge'' = Some ([manage_messages], CmdClear)
   \<and> bind_arguments CmdClear no_arguments = Inr (Clear 10)"
  using clear_behaviour [where amount = 3 and w = example_world and a = no_arguments]
    clear_behaviour [where amount = 201 and w = example_world]
  by (simp add: example_world_def no_arguments_def str_int_def digits_small)

text \<open>C9. The number in the notice is the number of messages the purge removed, minus
  one, whatever amount was asked for; when the purge removed everything it could from a
  channel holding fewer than \<open>amount\<close> messages before the command, the number is the
  count of those earlier messages and is smaller than \<open>amount\<close>.\<close>

theorem clear_notice_counts_removed:
  assumes "1 \<le> amount" and "amount \<le> 200" and "purge_result w = Inr deleted"
  shows "clear w amount =
           ([Purge (amount + 1),
             SendTransient (''Deleted '' @ str_int (int (length deleted) - 1) @ '' messages.'') 5],
            None)
         \<and> (\<forall>history. deleted = take (nat (amount + 1)) history \<and> int (length history) - 1 < amount
               \<longrightarrow> int (length deleted) - 1 = int (length history) - 1
                   \<and> int (length deleted) - 1 < amount)"
  using assms by (auto simp add: clear_def)

theorem clear_notice_counts_removed_witness:
  "purge_result example_world = Inr [104, 103, 102]
   \<and> clear example_world 10 = ([Purge 11, SendTransient ''Deleted 2 messages.'' 5], None)"
  using clear_notice_counts_removed [of 10 example_world "[104, 103, 102]"]
  by (simp add: example_world_def str_int_def digits_small)

subsection \<open>roll\<close>

text \<open>C2. For every invocation of roll with an integer \<open>sides\<close>: outside 2..1000000 the
  handler sends the rejection reply and draws no random number; inside, it has one
  equally likely run for each integer of 1..sides, and the reply of that run shows that
  integer. Without an argument \<open>sides\<close> is 6.\<close>

theorem roll_behaviour:
  "(sides < 2 \<or> sides > 1000000 \<longrightarrow>
      roll sides = [([Reply (Text ''Please choose a number between 2 and 1,000,000.'') False], None)]
      \<and> (\<forall>r \<in> set (roll sides). \<not> list_ex is_random (fst r)))
   \<and> (2 \<le> sides \<and> sides \<le> 1000000 \<longrightarrow>
        roll sides = map (\<lambda>result. ([Randint 1 sides, roll_reply sides result], None)) (randint 1 sides)
        \<and> set (randint 1 sides) = {1..sides}
        \<and> distinct (randint 1 sides)
        \<and> length (roll sides) = nat sides)
   \<and> roll_reply sides result =
        Reply (Text (game_die @ '' d'' @ str_int sides @ '' -> **'' @ str_int result @ ''**'')) False
   \<and> bind_arguments CmdRoll (a\<lparr>arg_int := Given sides\<rparr>) = Inr (Roll sides)
   \<and> bind_arguments CmdRoll (a\<lparr>arg_int := Absent\<rparr>) = Inr (Roll 6)
   \<and> run_call cfg w ctx (Roll sides) = roll sides"
  by (simp add: roll_def randint_def roll_reply_def and_then_def with_default_def)

theorem roll_behaviour_witness:
  "roll 2 =
     [([Randint 1 2, Reply (Text (game_die @ '' d2 -> **1**'')) False], None),
      ([Randint 1 2, Reply (Text (game_die @ '' d2 -> **2**'')) False], None)]
   \<and> roll 1 = [([Reply (Text ''Please choose a number between 2 and 1,000,000.'') False], None)]
   \<and> bind_arguments CmdRoll no_arguments = Inr (Roll 6)"
proof -
  have r: "randint 1 2 = [1, 2]"
    by (simp add: randint_def upto.simps)
  show ?thesis
    using roll_behaviour [where sides = 2 and a = no_arguments] roll_behaviour [where sides = 1]
    by (simp add: r roll_reply_def no_arguments_def str_int_def digits_small)
qed

subsection \<open>The error hook\<close>



subsection \<open>help\<close>

text \<open>C4. For every prefix and every bot name, the help reply contains the name of each
  command except help itself, and the alias user (inside userinfo): ping, say, avatar,
  serverinfo, userinfo, user, clear, kick, ban, unban, addrole, removerole, 8ball, coin,
  roll. For every prefix without a line break, each of the fourteen syntax entries stands
  in the reply right after the prefix. When neither the prefix nor the bot name has a
  line break, the reply is exactly the text of the source with its margin of eight blanks
  removed and the prefix and the name filled in, and none of its lines is an entry (two
  blanks, the prefix, a name) for help, purge, clean or eightball. The reply is sent
  without mentioning the author.\<close>

theorem help_text_lists_commands:
  "(\<forall>n \<in> {''ping'', ''say'', ''avatar'', ''serverinfo'', ''userinfo'', ''user'', ''clear'',
            ''kick'', ''ban'', ''unban'', ''addrole'', ''removerole'', ''8ball'', ''coin'', ''roll''}.
       sublist n (help_text p u))
   \<and> (CHR 0x0A \<notin> set p \<longrightarrow>
        (\<forall>s \<in> {''clear <amount>       - Delete messages (requires Manage Messages)'',
                 ''kick <member> [reason]'', ''ban <member> [reason]'', ''unban <user_id>'',
                 ''ping'', ''say <message>        - (requires Manage Messages)'', ''avatar [member]'',
                 ''userinfo [member]'', ''serverinfo'', ''8ball <question>'', ''coin'', ''roll [sides]'',
                 ''addrole <member> <role>      - requires Manage Roles'',
                 ''removerole <member> <role>''}.
            sublist (p @ s) (help_text p u)))
   \<and> (CHR 0x0A \<notin> set p \<and> CHR 0x0A \<notin> set u \<longrightarrow>
        help_text p u =
          join [CHR 0x0A]
       [[],
        ''NekoNi2 - commands'',
        ''Prefix: '' @ p,
        [],
        ''Moderation:'',
        ''  '' @ p @ ''clear <amount>       - Delete messages (requires Manage Messages)'',
        ''  '' @ p @ ''kick <member> [reason]'',
        ''  '' @ p @ ''ban <member> [reason]'',
        ''  '' @ p @ ''unban <user_id>'',
        [],
        ''Utility:'',
        ''  '' @ p @ ''ping'',
        ''  '' @ p @ ''say <message>        - (requires Manage Messages)'',
        ''  '' @ p @ ''avatar [member]'',
        ''  '' @ p @ ''userinfo [member]'',
        ''  '' @ p @ ''serverinfo'',
        [],
        ''Fun:'',
        ''  '' @ p @ ''8ball <question>'',
        ''  '' @ p @ ''coin'',
        ''  '' @ p @ ''roll [sides]'',
        [],
        ''Advanced:'',
        ''  '' @ p @ ''addrole <member> <role>      - requires Manage Roles'',
        ''  '' @ p @ ''removerole <member> <role>'',
        [],
        ''Use @'' @ u @ '' as a mention or the prefix to run commands.'',
        []])
   \<and> (CHR 0x0A \<notin> set p \<and> CHR 0x0A \<notin> set u \<longrightarrow>
        (\<forall>w \<in> {''help'', ''purge'', ''clean'', ''eightball''}.
           \<forall>l \<in> set (split_lines (help_text p u)). \<not> prefix (''  '' @ p @ w) l))
   \<and> help_command cfg w = ([Reply (Text (help_text (PREFIX cfg) (bot_user w))) False], None)"
  apply (intro conjI impI ballI)
  subgoal by (erule name_sub)
  subgoal by (rule entry_sub(2))
  subgoal by (erule conjE) (rule help_text_exact)
  subgoal by (erule conjE) (rule help_text_no_entry)
  subgoal by (simp add: help_command_def)
  done

theorem help_text_lists_commands_witness:
  "sublist ''!roll [sides]'' (help_text ''!'' ''NekoNi2#0001'')
   \<and> sublist ''unban'' (help_text ''!'' ''NekoNi2#0001'')
   \<and> list_all (\<lambda>l. \<not> prefix ''  !help'' l) (split_lines (help_text ''!'' ''NekoNi2#0001''))
   \<and> help_command example_config example_world =
       ([Reply (Text (help_text ''!'' ''NekoNi2#0001'')) False], None)"
proof -
  note t = help_text_lists_commands [of "''!''" "''NekoNi2#0001''" example_config example_world]
  have "sublist (''!'' @ ''roll [sides]'') (help_text ''!'' ''NekoNi2#0001'')"
    by (rule t [THEN conjunct2, THEN conjunct1, THEN mp, THEN bspec]) simp_all
  moreover have "sublist ''unban'' (help_text ''!'' ''NekoNi2#0001'')"
    by (rule t [THEN conjunct1, THEN bspec]) simp
  moreover have "\<forall>l \<in> set (split_lines (help_text ''!'' ''NekoNi2#0001'')).
                   \<not> prefix (''  '' @ ''!'' @ ''help'') l"
    by (rule t [THEN conjunct2, THEN conjunct2, THEN conjunct2, THEN conjunct1, THEN mp, THEN bspec])
       simp_all
  moreover have "help_command example_config example_world =
       ([Reply (Text (help_text ''!'' ''NekoNi2#0001'')) False], None)"
    by (simp add: help_command_def example_config_def example_world_def)
  ultimately show ?thesis
    by (simp add: list_all_iff)
qed

text \<open>The reply for the default prefix, in full.\<close>

lemma help_text_default:
  "help_text ''!'' ''NekoNi2#0001'' =
     join [CHR 0x0A]
       [[],
        ''NekoNi2 - commands'',
        ''Prefix: !'',
        [],
        ''Moderation:'',
        ''  !clear <amount>       - Delete messages (requires Manage Messages)'',
        ''  !kick <member> [reason]'',
        ''  !ban <member> [reason]'',
        ''  !unban <user_id>'',
        [],
        ''Utility:'',
        ''  !ping'',
        ''  !say <message>        - (requires Manage Messages)'',
        ''  !avatar [member]'',
        ''  !userinfo [member]'',
        ''  !serverinfo'',
        [],
        ''Fun:'',
        ''  !8ball <question>'',
        ''  !coin'',
        ''  !roll [sides]'',
        [],
        ''Advanced:'',
        ''  !addrole <member> <role>      - requires Manage Roles'',
        ''  !removerole <member> <role>'',
        [],
        ''Use @NekoNi2#0001 as a mention or the prefix to run commands.'',
        []]"
  by code_simp

text \<open>With the default prefix the reply contains neither help nor the aliases purge,
  clean and eightball. With a prefix made of a line break and a blank, the blank is cut
  as part of the margin, and no entry follows the prefix any more.\<close>

theorem help_text_counterexample:
  "\<not> sublist ''help'' (help_text ''!'' ''NekoNi2#0001'')
   \<and> \<not> sublist ''purge'' (help_text ''!'' ''NekoNi2#0001'')
   \<and> \<not> sublist ''clean'' (help_text ''!'' ''NekoNi2#0001'')
   \<and> \<not> sublist ''eightball'' (help_text ''!'' ''NekoNi2#0001'')
   \<and> \<not> sublist ([CHR 0x0A, CHR 0x20] @ ''clear'') (help_text [CHR 0x0A, CHR 0x20] ''NekoNi2#0001'')"
  unfolding help_text_default by code_simp

subsection \<open>Configuration\<close>

text \<open>C5. When \<^verbatim>\<open>OWNER_ID\<close> is unset, empty or a string that \<^verbatim>\<open>int\<close> accepts, loading
  gives: the prefix from \<^verbatim>\<open>PREFIX\<close> or "!" when unset, the welcome channel name from
  \<^verbatim>\<open>WELCOME_CHANNEL\<close> or "general" when unset, the owner id as the integer value of
  \<^verbatim>\<open>OWNER_ID\<close> or none when unset or empty; then, when \<^verbatim>\<open>DISCORD_TOKEN\<close> is unset or
  empty, the script logs and prints the error message and does not start the bot, and
  when it is a non-empty string the bot is started with it.\<close>

theorem config_loading:
  assumes "env ''OWNER_ID'' = None \<or> env ''OWNER_ID'' = Some [] 
           \<or> (\<exists>s n. env ''OWNER_ID'' = Some s \<and> int_of s = Inr n)"
  shows "\<exists>cfg. load_config int_of env = Inr cfg
           \<and> PREFIX cfg = (case env ''PREFIX'' of None \<Rightarrow> ''!'' | Some p \<Rightarrow> p)
           \<and> WELCOME_CHANNEL cfg = (case env ''WELCOME_CHANNEL'' of None \<Rightarrow> ''general'' | Some c \<Rightarrow> c)
           \<and> OWNER_ID cfg =
               (case env ''OWNER_ID'' of None \<Rightarrow> None
                | Some s \<Rightarrow> if s = [] then None
                             else (case int_of s of Inl e \<Rightarrow> None | Inr n \<Rightarrow> Some n))
           \<and> TOKEN cfg = env ''DISCORD_TOKEN''
           \<and> script int_of env =
               Inr (case env ''DISCORD_TOKEN'' of
                      None \<Rightarrow> [LogError token_missing_message, Print token_missing_message]
                    | Some t \<Rightarrow>
                        if t = [] then [LogError token_missing_message, Print token_missing_message]
                        else [RunBot t])"
  using assms
  by (auto simp add: load_config_def script_def run_main_def getenv_def getenv_default_def
        truthy_def Let_def split: option.splits sum.splits)

theorem config_loading_witness:
  "script py_int (Map.empty(''DISCORD_TOKEN'' \<mapsto> ''abc'', ''OWNER_ID'' \<mapsto> ''42'', ''PREFIX'' \<mapsto> ''?'')) = Inr [RunBot ''abc'']
   \<and> load_config py_int (Map.empty(''DISCORD_TOKEN'' \<mapsto> ''abc'', ''OWNER_ID'' \<mapsto> ''42'', ''PREFIX'' \<mapsto> ''?''))
      = Inr \<lparr>PREFIX = ''?'', TOKEN = Some ''abc'', WELCOME_CHANNEL = ''general'', OWNER_ID = Some 42\<rparr>"
proof -
  have i: "py_int ''42'' = Inr 42"
    by (simp add: py_int_def strip_def is_space_def is_digit_def)
  show ?thesis
    using config_loading [of "Map.empty(''DISCORD_TOKEN'' \<mapsto> ''abc'', ''OWNER_ID'' \<mapsto> ''42'', ''PREFIX'' \<mapsto> ''?'')" py_int] i
    by auto
qed

text \<open>A token that is set, but to the empty string: the bot is not started.\<close>

theorem script_empty_token_counterexample:
  "getenv (Map.empty(''DISCORD_TOKEN'' \<mapsto> '''')) ''DISCORD_TOKEN'' = Some ''''
   \<and> script py_int (Map.empty(''DISCORD_TOKEN'' \<mapsto> ''''))
       = Inr [LogError token_missing_message, Print token_missing_message]"
  by (simp add: load_config_def script_def run_main_def getenv_def getenv_default_def truthy_def)

text \<open>C10. When \<^verbatim>\<open>OWNER_ID\<close> is set to a non-empty string that \<^verbatim>\<open>int\<close> refuses, the
  exception is raised while the module body runs and the script ends with it, so the bot
  is never started; when \<^verbatim>\<open>OWNER_ID\<close> is unset or empty, the loaded owner id is none.\<close>

theorem owner_id_loading:
  "(env ''OWNER_ID'' = Some s \<and> s \<noteq> [] \<and> int_of s = Inl e \<longrightarrow>
      load_config int_of env = Inl e \<and> script int_of env = Inl e)
   \<and> (env ''OWNER_ID'' = None \<or> env ''OWNER_ID'' = Some [] \<longrightarrow>
        (\<exists>cfg. load_config int_of env = Inr cfg \<and> OWNER_ID cfg = None))"
  by (auto simp add: load_config_def script_def getenv_def getenv_default_def truthy_def Let_def)

theorem owner_id_loading_witness:
  "load_config py_int (Map.empty(''OWNER_ID'' \<mapsto> ''abc'')) = Inl ValueError
   \<and> script py_int (Map.empty(''OWNER_ID'' \<mapsto> ''abc'')) = Inl ValueError
   \<and> (\<exists>cfg. load_config py_int Map.empty = Inr cfg \<and> OWNER_ID cfg = None)"
proof -
  have i: "py_int ''abc'' = Inl ValueError"
    by (simp add: py_int_def strip_def is_space_def is_digit_def)
  show ?thesis
    using owner_id_loading [of "Map.empty(''OWNER_ID'' \<mapsto> ''abc'')" "''abc''" py_int ValueError]
      owner_id_loading [of Map.empty "''abc''" py_int ValueError] i
    by simp
qed

text \<open>\<^verbatim>\<open>OWNER_ID\<close> set to the empty string, which \<^verbatim>\<open>int\<close> refuses: nothing is raised.\<close>

theorem empty_owner_id_counterexample:
  "getenv (Map.empty(''OWNER_ID'' \<mapsto> '''')) ''OWNER_ID'' = Some ''''
   \<and> py_int '''' = Inl ValueError
   \<and> load_config py_int (Map.empty(''OWNER_ID'' \<mapsto> ''''))
       = Inr \<lparr>PREFIX = ''!'', TOKEN = None, WELCOME_CHANNEL = ''general'', OWNER_ID = None\<rparr>"
  by (simp add: load_config_def getenv_def getenv_default_def truthy_def py_int_def strip_def)

subsection \<open>say\<close>

text \<open>C6. \<open>say\<close> first asks to delete the invoking message, goes on whether or not that
  deletion raised, and then sends its message argument unchanged to the same channel; an
  invocation by a caller who holds manage-messages makes exactly these two requests.\<close>

theorem say_behaviour:
  "say w message = ([DeleteInvoking, Send message], None)
   \<and> (manage_messages \<in> set (author_permissions ctx) \<longrightarrow>
        invoke cfg w ctx ''say'' (a\<lparr>arg_rest := Some message\<rparr>) = [[DeleteInvoking, Send message]])"
  by (simp add: say_def invoke_def get_command_def command_table_def and_then_def
        required_rest_def with_error_hook_def split: option.splits)

theorem say_behaviour_witness:
  "delete_result example_world = Some Forbidden
   \<and> invoke example_config example_world example_context ''say''
        (no_arguments\<lparr>arg_rest := Some ''hello  world''\<rparr>)
      = [[DeleteInvoking, Send ''hello  world'']]"
  using say_behaviour
    [where ctx = example_context and w = example_world and cfg = example_config
       and a = no_arguments and message = "''hello  world''"]
  by (simp add: example_context_def example_world_def)

subsection \<open>Member join\<close>

text \<open>C7. On a member joining, the handler takes the first text channel of the guild
  whose name equals the configured welcome channel name. If there is one and the bot may
  send there, the only request is a greeting in that channel, and the greeting contains
  the member's mention. If there is none, or the bot may not send in the one found, the
  only request is a debug log entry.\<close>

theorem on_member_join_behaviour:
  "(\<forall>ch. utils_get_name (text_channels g) (WELCOME_CHANNEL cfg) = Some ch \<longrightarrow>
        ch \<in> set (text_channels g) \<and> channel_name ch = WELCOME_CHANNEL cfg
        \<and> (bot_can_send ch \<longrightarrow>
             on_member_join cfg m g = [SendTo ch (welcome_text m g)]
             \<and> sublist (member_mention m) (welcome_text m g))
        \<and> (\<not> bot_can_send ch \<longrightarrow> (\<exists>msg. on_member_join cfg m g = [LogDebug msg])))
   \<and> (utils_get_name (text_channels g) (WELCOME_CHANNEL cfg) = None \<longrightarrow>
        (\<forall>ch \<in> set (text_channels g). channel_name ch \<noteq> WELCOME_CHANNEL cfg)
        \<and> (\<exists>msg. on_member_join cfg m g = [LogDebug msg]))"
proof -
  have found: "ch \<in> set (text_channels g) \<and> channel_name ch = WELCOME_CHANNEL cfg"
    if "utils_get_name (text_channels g) (WELCOME_CHANNEL cfg) = Some ch" for ch
    using that by (auto simp add: utils_get_name_def find_Some_iff)
  have mention: "sublist (member_mention m) (welcome_text m g)"
    unfolding welcome_text_def by (rule sublist_appendI)
  have none: "\<forall>ch \<in> set (text_channels g). channel_name ch \<noteq> WELCOME_CHANNEL cfg"
    if "utils_get_name (text_channels g) (WELCOME_CHANNEL cfg) = None"
    using that by (auto simp add: utils_get_name_def find_None_iff)
  show ?thesis
    using found mention none by (auto simp add: on_member_join_def)
qed

theorem on_member_join_behaviour_witness:
  "on_member_join example_config example_member example_guild =
     [SendTo \<lparr>channel_name = ''general'', channel_id = 11, bot_can_send = True\<rparr>
        (''Welcome <@42> to **Lab**! Say hi '' @ waving_hand)]
   \<and> (\<exists>msg. on_member_join (example_config\<lparr>WELCOME_CHANNEL := ''lobby''\<rparr>) example_member
                example_guild = [LogDebug msg])"
proof -
  have f: "utils_get_name (text_channels example_guild) (WELCOME_CHANNEL example_config) =
             Some \<lparr>channel_name = ''general'', channel_id = 11, bot_can_send = True\<rparr>"
    by (simp add: utils_get_name_def example_guild_def example_config_def)
  have n: "utils_get_name (text_channels example_guild)
             (WELCOME_CHANNEL (example_config\<lparr>WELCOME_CHANNEL := ''lobby''\<rparr>)) = None"
    by (simp add: utils_get_name_def example_guild_def)
  have w: "welcome_text example_member example_guild =
             ''Welcome <@42> to **Lab**! Say hi '' @ waving_hand"
    by (simp add: welcome_text_def example_member_def example_guild_def)
  show ?thesis
    using on_member_join_behaviour [of example_guild example_config example_member]
      on_member_join_behaviour
        [of example_guild "example_config\<lparr>WELCOME_CHANNEL := ''lobby''\<rparr>" example_member]
      f n w
    by simp
qed

subsection \<open>Replies\<close>

text \<open>C8. Every reply that a command handler sends with \<^verbatim>\<open>ctx.reply\<close> has
  \<^verbatim>\<open>mention_author=False\<close>: this holds for every run of every handler body (ping, avatar,
  serverinfo, userinfo, clear, kick, ban, unban, addrole, removerole, 8ball, coin, roll,
  help; say sends no reply), and for every whole invocation, error hook included.\<close>

theorem replies_never_mention_author:
  "(\<forall>r \<in> set (run_call cfg w ctx cl). \<forall>c m. Reply c m \<in> set (fst r) \<longrightarrow> m = False)
   \<and> (\<forall>tr \<in> set (invoke cfg w ctx name a). \<forall>c m. Reply c m \<in> set tr \<longrightarrow> m = False)"
proof -
  have body: "\<forall>r \<in> set (run_call cfg w ctx cl). quiet (fst r)" for cl
    using quiet_run_call by blast
  have "quiet tr" if "tr \<in> set (invoke cfg w ctx name a)" for tr
  proof (cases "get_command name")
    case None
    with that show ?thesis
      using on_command_error_replies by (auto simp add: invoke_def quiet_def)
  next
    case (Some pc)
    obtain perms c where pc: "pc = (perms, c)" by (cases pc)
    show ?thesis
    proof (cases "filter (\<lambda>q. q \<notin> set (author_permissions ctx)) perms = []")
      case False
      with that Some pc show ?thesis
        using on_command_error_replies by (auto simp add: invoke_def quiet_def)
    next
      case True
      show ?thesis
      proof (cases "bind_arguments c a")
        case (Inl e)
        with that Some pc True show ?thesis
          using on_command_error_replies by (auto simp add: invoke_def quiet_def)
      next
        case (Inr cl)
        with that Some pc True obtain r where "r \<in> set (run_call cfg w ctx cl)" "tr = with_error_hook r"
          by (auto simp add: invoke_def)
        then show ?thesis using body quiet_hook by blast
      qed
    qed
  qed
  then have "\<forall>tr \<in> set (invoke cfg w ctx name a). \<forall>c m. Reply c m \<in> set tr \<longrightarrow> m = False"
    unfolding quiet_def by (metis (full_types))
  moreover have "\<forall>r \<in> set (run_call cfg w ctx cl). \<forall>c m. Reply c m \<in> set (fst r) \<longrightarrow> m = False"
    using body [of cl] unfolding quiet_def by (metis (full_types))
  ultimately show ?thesis by blast
qed

theorem replies_never_mention_author_witness:
  "invoke example_config example_world example_context ''ban''
     (no_arguments\<lparr>arg_member := Given example_member\<rparr>)
   = [[Ban example_member ''No reason provided'',
       Reply (Text ''Banned ada - No reason provided'') False]]
   \<and> Reply (Text ''Banned ada - No reason provided'') True
       \<notin> set (hd (invoke example_config example_world example_context ''ban''
                    (no_arguments\<lparr>arg_member := Given example_member\<rparr>)))"
proof -
  have g: "get_command ''ban'' = Some ([ban_members], CmdBan)"
    by (simp add: get_command_def command_table_def)
  have i: "invoke example_config example_world example_context ''ban''
             (no_arguments\<lparr>arg_member := Given example_member\<rparr>)
           = [[Ban example_member ''No reason provided'',
               Reply (Text ''Banned ada - No reason provided'') False]]"
    by (simp add: invoke_def g example_context_def no_arguments_def and_then_def required_def
          rest_or_def ban_def example_world_def with_error_hook_def example_member_def)
  show ?thesis
    using replies_never_mention_author
      [where cfg = example_config and w = example_world and ctx = example_context
         and name = "''ban''" and a = "no_arguments\<lparr>arg_member := Given example_member\<rparr>"
         and cl = Ping]
      i
    by simp
qed

end
